theory Spec2Isabelle
  imports Main "HOL-Library.Word"
begin

section \<open>The sienna-locomotive tracer: taint engine, trace rings, hooks and triage\<close>

text \<open>
  A shallow embedding of \<^verbatim>\<open>src/tracer/tracer.cpp\<close>. The file-scope globals of the
  tracer become one record that every function takes and returns. DynamoRIO, the Windows
  API and the fuzzing server are not part of the tracer: what they answer is a field of the
  decoded instruction or of an environment record, what the tracer asks of them is logged
  in the state.
\<close>

subsection \<open>Registers\<close>

text \<open>
  \<^verbatim>\<open>reg_id_t\<close>. DynamoRIO's enumeration is large; the tracer names the sixteen
  general-purpose register families at their four widths and \<^verbatim>\<open>DR_REG_NULL\<close>. An
  identifier is a family with a width (64, 32, 16 bits, low byte, high byte), the null
  register, or any other identifier of the enumeration. The names of the source are
  abbreviations of these. The low bytes of the SP, BP, SI and DI families (SPL, BPL, SIL,
  DIL) have no name in the source.
\<close>

datatype gpr =
    GPR_A | GPR_B | GPR_C | GPR_D | GPR_SP | GPR_BP | GPR_SI | GPR_DI
  | GPR_8 | GPR_9 | GPR_10 | GPR_11 | GPR_12 | GPR_13 | GPR_14 | GPR_15

datatype reg_id_t =
    DR_REG_NULL
  | REG_64 gpr
  | REG_32 gpr
  | REG_16 gpr
  | REG_8L gpr
  | REG_8H gpr
  | DR_REG_OTHER nat

abbreviation "DR_REG_RAX \<equiv> REG_64 GPR_A"
abbreviation "DR_REG_EAX \<equiv> REG_32 GPR_A"
abbreviation "DR_REG_AX \<equiv> REG_16 GPR_A"
abbreviation "DR_REG_AL \<equiv> REG_8L GPR_A"
abbreviation "DR_REG_AH \<equiv> REG_8H GPR_A"
abbreviation "DR_REG_RBX \<equiv> REG_64 GPR_B"
abbreviation "DR_REG_EBX \<equiv> REG_32 GPR_B"
abbreviation "DR_REG_BX \<equiv> REG_16 GPR_B"
abbreviation "DR_REG_BL \<equiv> REG_8L GPR_B"
abbreviation "DR_REG_BH \<equiv> REG_8H GPR_B"
abbreviation "DR_REG_RCX \<equiv> REG_64 GPR_C"
abbreviation "DR_REG_ECX \<equiv> REG_32 GPR_C"
abbreviation "DR_REG_CX \<equiv> REG_16 GPR_C"
abbreviation "DR_REG_CL \<equiv> REG_8L GPR_C"
abbreviation "DR_REG_CH \<equiv> REG_8H GPR_C"
abbreviation "DR_REG_RDX \<equiv> REG_64 GPR_D"
abbreviation "DR_REG_EDX \<equiv> REG_32 GPR_D"
abbreviation "DR_REG_DX \<equiv> REG_16 GPR_D"
abbreviation "DR_REG_DL \<equiv> REG_8L GPR_D"
abbreviation "DR_REG_DH \<equiv> REG_8H GPR_D"
abbreviation "DR_REG_RSP \<equiv> REG_64 GPR_SP"
abbreviation "DR_REG_ESP \<equiv> REG_32 GPR_SP"
abbreviation "DR_REG_SP \<equiv> REG_16 GPR_SP"
abbreviation "DR_REG_RBP \<equiv> REG_64 GPR_BP"
abbreviation "DR_REG_EBP \<equiv> REG_32 GPR_BP"
abbreviation "DR_REG_BP \<equiv> REG_16 GPR_BP"
abbreviation "DR_REG_RSI \<equiv> REG_64 GPR_SI"
abbreviation "DR_REG_ESI \<equiv> REG_32 GPR_SI"
abbreviation "DR_REG_SI \<equiv> REG_16 GPR_SI"
abbreviation "DR_REG_RDI \<equiv> REG_64 GPR_DI"
abbreviation "DR_REG_EDI \<equiv> REG_32 GPR_DI"
abbreviation "DR_REG_DI \<equiv> REG_16 GPR_DI"
abbreviation "DR_REG_R8 \<equiv> REG_64 GPR_8"
abbreviation "DR_REG_R8D \<equiv> REG_32 GPR_8"
abbreviation "DR_REG_R8W \<equiv> REG_16 GPR_8"
abbreviation "DR_REG_R8L \<equiv> REG_8L GPR_8"
abbreviation "DR_REG_R9 \<equiv> REG_64 GPR_9"
abbreviation "DR_REG_R9D \<equiv> REG_32 GPR_9"
abbreviation "DR_REG_R9W \<equiv> REG_16 GPR_9"
abbreviation "DR_REG_R9L \<equiv> REG_8L GPR_9"
abbreviation "DR_REG_R10 \<equiv> REG_64 GPR_10"
abbreviation "DR_REG_R10D \<equiv> REG_32 GPR_10"
abbreviation "DR_REG_R10W \<equiv> REG_16 GPR_10"
abbreviation "DR_REG_R10L \<equiv> REG_8L GPR_10"
abbreviation "DR_REG_R11 \<equiv> REG_64 GPR_11"
abbreviation "DR_REG_R11D \<equiv> REG_32 GPR_11"
abbreviation "DR_REG_R11W \<equiv> REG_16 GPR_11"
abbreviation "DR_REG_R11L \<equiv> REG_8L GPR_11"
abbreviation "DR_REG_R12 \<equiv> REG_64 GPR_12"
abbreviation "DR_REG_R12D \<equiv> REG_32 GPR_12"
abbreviation "DR_REG_R12W \<equiv> REG_16 GPR_12"
abbreviation "DR_REG_R12L \<equiv> REG_8L GPR_12"
abbreviation "DR_REG_R13 \<equiv> REG_64 GPR_13"
abbreviation "DR_REG_R13D \<equiv> REG_32 GPR_13"
abbreviation "DR_REG_R13W \<equiv> REG_16 GPR_13"
abbreviation "DR_REG_R13L \<equiv> REG_8L GPR_13"
abbreviation "DR_REG_R14 \<equiv> REG_64 GPR_14"
abbreviation "DR_REG_R14D \<equiv> REG_32 GPR_14"
abbreviation "DR_REG_R14W \<equiv> REG_16 GPR_14"
abbreviation "DR_REG_R14L \<equiv> REG_8L GPR_14"
abbreviation "DR_REG_R15 \<equiv> REG_64 GPR_15"
abbreviation "DR_REG_R15D \<equiv> REG_32 GPR_15"
abbreviation "DR_REG_R15W \<equiv> REG_16 GPR_15"
abbreviation "DR_REG_R15L \<equiv> REG_8L GPR_15"

text \<open>\<^verbatim>\<open>reg_to_full_width64\<close>, case by case as in the source.\<close>

fun reg_to_full_width64 :: "reg_id_t \<Rightarrow> reg_id_t" where
  "reg_to_full_width64 DR_REG_EAX = DR_REG_RAX"
| "reg_to_full_width64 DR_REG_AX = DR_REG_RAX"
| "reg_to_full_width64 DR_REG_AH = DR_REG_RAX"
| "reg_to_full_width64 DR_REG_AL = DR_REG_RAX"
| "reg_to_full_width64 DR_REG_EBX = DR_REG_RBX"
| "reg_to_full_width64 DR_REG_BX = DR_REG_RBX"
| "reg_to_full_width64 DR_REG_BH = DR_REG_RBX"
| "reg_to_full_width64 DR_REG_BL = DR_REG_RBX"
| "reg_to_full_width64 DR_REG_ECX = DR_REG_RCX"
| "reg_to_full_width64 DR_REG_CX = DR_REG_RCX"
| "reg_to_full_width64 DR_REG_CH = DR_REG_RCX"
| "reg_to_full_width64 DR_REG_CL = DR_REG_RCX"
| "reg_to_full_width64 DR_REG_EDX = DR_REG_RDX"
| "reg_to_full_width64 DR_REG_DX = DR_REG_RDX"
| "reg_to_full_width64 DR_REG_DH = DR_REG_RDX"
| "reg_to_full_width64 DR_REG_DL = DR_REG_RDX"
| "reg_to_full_width64 DR_REG_R8D = DR_REG_R8"
| "reg_to_full_width64 DR_REG_R8W = DR_REG_R8"
| "reg_to_full_width64 DR_REG_R8L = DR_REG_R8"
| "reg_to_full_width64 DR_REG_R9D = DR_REG_R9"
| "reg_to_full_width64 DR_REG_R9W = DR_REG_R9"
| "reg_to_full_width64 DR_REG_R9L = DR_REG_R9"
| "reg_to_full_width64 DR_REG_R10D = DR_REG_R10"
| "reg_to_full_width64 DR_REG_R10W = DR_REG_R10"
| "reg_to_full_width64 DR_REG_R10L = DR_REG_R10"
| "reg_to_full_width64 DR_REG_R11D = DR_REG_R11"
| "reg_to_full_width64 DR_REG_R11W = DR_REG_R11"
| "reg_to_full_width64 DR_REG_R11L = DR_REG_R11"
| "reg_to_full_width64 DR_REG_R12D = DR_REG_R12"
| "reg_to_full_width64 DR_REG_R12W = DR_REG_R12"
| "reg_to_full_width64 DR_REG_R12L = DR_REG_R12"
| "reg_to_full_width64 DR_REG_R13D = DR_REG_R13"
| "reg_to_full_width64 DR_REG_R13W = DR_REG_R13"
| "reg_to_full_width64 DR_REG_R13L = DR_REG_R13"
| "reg_to_full_width64 DR_REG_R14D = DR_REG_R14"
| "reg_to_full_width64 DR_REG_R14W = DR_REG_R14"
| "reg_to_full_width64 DR_REG_R14L = DR_REG_R14"
| "reg_to_full_width64 DR_REG_R15D = DR_REG_R15"
| "reg_to_full_width64 DR_REG_R15W = DR_REG_R15"
| "reg_to_full_width64 DR_REG_R15L = DR_REG_R15"
| "reg_to_full_width64 DR_REG_ESP = DR_REG_RSP"
| "reg_to_full_width64 DR_REG_SP = DR_REG_RSP"
| "reg_to_full_width64 DR_REG_EBP = DR_REG_RBP"
| "reg_to_full_width64 DR_REG_BP = DR_REG_RBP"
| "reg_to_full_width64 DR_REG_ESI = DR_REG_RSI"
| "reg_to_full_width64 DR_REG_SI = DR_REG_RSI"
| "reg_to_full_width64 DR_REG_EDI = DR_REG_RDI"
| "reg_to_full_width64 DR_REG_DI = DR_REG_RDI"
| "reg_to_full_width64 reg = reg"

subsection \<open>Operands and decoded instructions\<close>

type_synonym app_pc = "64 word"

text \<open>
  \<^verbatim>\<open>opnd_t\<close>. A register operand; a base+index+displacement memory operand with its
  size in bytes; an absolute or pc-relative memory operand (a memory reference that is not
  base+disp) with its size in bytes; anything else (immediates, code addresses).
\<close>

datatype opnd_t =
    OPND_REG reg_id_t
  | OPND_BASE_DISP (base_reg: reg_id_t) (index_reg: reg_id_t) (disp: int) (bd_size: nat)
  | OPND_ABS_ADDR app_pc nat
  | OPND_OTHER

fun opnd_is_reg :: "opnd_t \<Rightarrow> bool" where
  "opnd_is_reg (OPND_REG r) = True"
| "opnd_is_reg _ = False"

fun opnd_is_base_disp :: "opnd_t \<Rightarrow> bool" where
  "opnd_is_base_disp (OPND_BASE_DISP b i d n) = True"
| "opnd_is_base_disp _ = False"

fun opnd_is_memory_reference :: "opnd_t \<Rightarrow> bool" where
  "opnd_is_memory_reference (OPND_BASE_DISP b i d n) = True"
| "opnd_is_memory_reference (OPND_ABS_ADDR a n) = True"
| "opnd_is_memory_reference _ = False"

fun opnd_size_in_bytes :: "opnd_t \<Rightarrow> nat" where
  "opnd_size_in_bytes (OPND_BASE_DISP b i d n) = n"
| "opnd_size_in_bytes (OPND_ABS_ADDR a n) = n"
| "opnd_size_in_bytes _ = 0"

datatype opcode_t = OP_push | OP_pop | OP_xor | OP_xchg | OP_other nat

text \<open>
  A decoded \<^verbatim>\<open>instr_t\<close>: its opcode and operands, and the answers of DynamoRIO's
  predicates on it (\<^verbatim>\<open>instr_is_return\<close>, \<^verbatim>\<open>instr_is_ubr\<close>, ...), its branch target
  operand and its disassembly.
\<close>

record instr_t =
  instr_get_opcode :: opcode_t
  instr_srcs :: "opnd_t list"
  instr_dsts :: "opnd_t list"
  instr_get_target :: opnd_t
  instr_is_return :: bool
  instr_is_ubr :: bool
  instr_is_cbr :: bool
  instr_is_call_direct :: bool
  instr_is_mbr :: bool
  instr_is_call :: bool
  instr_writes_memory :: bool
  instr_reads_memory :: bool
  instr_disassemble :: string

subsection \<open>The environment\<close>

text \<open>
  What the tracer reads from its collaborators while it runs: the decoder, the address of
  a memory operand under the current machine context (\<^verbatim>\<open>opnd_compute_address\<close>), the
  C conversion of a displacement to a \<^verbatim>\<open>reg_id_t\<close> (the source assigns
  \<^verbatim>\<open>opnd_get_disp\<close> to a \<^verbatim>\<open>reg_id_t\<close>),
  \<^verbatim>\<open>IsBadReadPtr\<close>, the results of the file operations of the crash dump, and the
  answers of the client library in the post-hooks.
\<close>

record client_read_info =
  info_function :: nat
  lpBuffer :: app_pc
  nNumberOfBytesToRead :: nat
  argHash :: "nat option"

record env =
  decode :: "app_pc \<Rightarrow> instr_t"
  opnd_compute_address :: "opnd_t \<Rightarrow> app_pc"
  reg_of_disp :: "int \<Rightarrow> reg_id_t"
  IsBadReadPtr :: "app_pc \<Rightarrow> bool"
  crash_file_opens :: bool
  crash_file_writes :: bool
  dump_file_opens :: bool
  minidump_writes :: bool
  is_sane_post_hook :: bool
  is_function_targeted :: "client_read_info \<Rightarrow> bool"
  drwrap_get_retval :: app_pc
  region_size :: nat
  mapped_file_name_found :: bool

subsection \<open>The tracer's state\<close>

datatype request =
    Mutex_lock
  | Mutex_unlock
  | Request_replay "32 word" nat app_pc
  | Request_crash_paths

definition LAST_COUNT :: nat where
  "LAST_COUNT = 5"

record tracer =
  tainted_regs :: "reg_id_t set"
  tainted_mems :: "app_pc set"
  last_call_idx :: nat
  last_insn_idx :: nat
  last_calls :: "app_pc list"
  last_insns :: "app_pc list"
  module_start :: app_pc
  module_end :: app_pc
  replay :: bool
  no_mutate :: bool
  crashed :: bool
  mutate_count :: "32 word"
  requests :: "request list"
  call_counts :: "nat \<Rightarrow> nat"
  live_infos :: "nat \<rightharpoonup> client_read_info"
  live_hashes :: "nat set"

subsection \<open>Operand inspection\<close>

text \<open>The byte addresses \<open>addr + i\<close> for \<open>i < size\<close>, as the loops of the source visit them.\<close>

definition mem_range :: "app_pc \<Rightarrow> nat \<Rightarrow> app_pc list" where
  "mem_range addr n = map (\<lambda>i. addr + of_nat i) [0..<n]"

definition is_tainted :: "env \<Rightarrow> tracer \<Rightarrow> opnd_t \<Rightarrow> bool" where
  "is_tainted e s opnd =
     (if opnd_is_reg opnd then
        (case opnd of OPND_REG reg \<Rightarrow> reg_to_full_width64 reg \<in> tainted_regs s | _ \<Rightarrow> False)
      else if opnd_is_memory_reference opnd then
        (let addr = opnd_compute_address e opnd;
             size = opnd_size_in_bytes opnd
         in if list_ex (\<lambda>a. a \<in> tainted_mems s) (mem_range addr size) then True
            else if opnd_is_base_disp opnd then
              (let reg_base = base_reg opnd;
                   reg_disp = reg_of_disp e (disp opnd);
                   reg_indx = index_reg opnd
               in if reg_base \<noteq> DR_REG_NULL \<and> reg_to_full_width64 reg_base \<in> tainted_regs s
                  then True
                  else if reg_disp \<noteq> DR_REG_NULL \<and> reg_to_full_width64 reg_disp \<in> tainted_regs s
                  then True
                  else if reg_indx \<noteq> DR_REG_NULL \<and> reg_to_full_width64 reg_indx \<in> tainted_regs s
                  then True
                  else False)
            else False)
      else False)"

definition taint_mem :: "app_pc \<Rightarrow> nat \<Rightarrow> tracer \<Rightarrow> tracer" where
  "taint_mem addr n s = s\<lparr>tainted_mems := tainted_mems s \<union> set (mem_range addr n)\<rparr>"

definition untaint_mem :: "app_pc \<Rightarrow> nat \<Rightarrow> tracer \<Rightarrow> bool \<times> tracer" where
  "untaint_mem addr n s =
     (list_ex (\<lambda>a. a \<in> tainted_mems s) (mem_range addr n),
      s\<lparr>tainted_mems := tainted_mems s - set (mem_range addr n)\<rparr>)"

definition taint :: "env \<Rightarrow> opnd_t \<Rightarrow> tracer \<Rightarrow> tracer" where
  "taint e opnd s =
     (case opnd of
        OPND_REG reg \<Rightarrow> s\<lparr>tainted_regs := insert (reg_to_full_width64 reg) (tainted_regs s)\<rparr>
      | _ \<Rightarrow> if opnd_is_memory_reference opnd
             then taint_mem (opnd_compute_address e opnd) (opnd_size_in_bytes opnd) s
             else s)"

definition untaint :: "env \<Rightarrow> opnd_t \<Rightarrow> tracer \<Rightarrow> bool \<times> tracer" where
  "untaint e opnd s =
     (case opnd of
        OPND_REG reg \<Rightarrow>
          (reg_to_full_width64 reg \<in> tainted_regs s,
           s\<lparr>tainted_regs := tainted_regs s - {reg_to_full_width64 reg}\<rparr>)
      | _ \<Rightarrow> if opnd_is_memory_reference opnd
             then untaint_mem (opnd_compute_address e opnd) (opnd_size_in_bytes opnd) s
             else (False, s))"

subsection \<open>Propagation rules\<close>

text \<open>\<^verbatim>\<open>handle_xor\<close>: \<open>xor\<close> of a register with itself clears the register's taint.\<close>

definition handle_xor :: "instr_t \<Rightarrow> tracer \<Rightarrow> bool \<times> tracer" where
  "handle_xor instr s =
     (case instr_srcs instr of
        [opnd_0, opnd_1] \<Rightarrow>
          (case (opnd_0, opnd_1) of
             (OPND_REG r0, OPND_REG r1) \<Rightarrow>
               (let reg_0 = reg_to_full_width64 r0;
                    reg_1 = reg_to_full_width64 r1
                in if reg_0 = reg_1
                   then (True, s\<lparr>tainted_regs := tainted_regs s - {reg_0}\<rparr>)
                   else (False, s))
           | _ \<Rightarrow> (False, s))
      | _ \<Rightarrow> (False, s))"

definition is_rsp_opnd :: "opnd_t \<Rightarrow> bool" where
  "is_rsp_opnd opnd =
     (case opnd of OPND_REG reg \<Rightarrow> reg_to_full_width64 reg = DR_REG_RSP | _ \<Rightarrow> False)"

text \<open>\<^verbatim>\<open>handle_push_pop\<close>: the generic rule, skipping destinations that are the stack pointer.\<close>

definition handle_push_pop :: "env \<Rightarrow> instr_t \<Rightarrow> tracer \<Rightarrow> tracer" where
  "handle_push_pop e instr s =
     (let tainted = list_ex (is_tainted e s) (instr_srcs instr)
      in if tainted
         then fold (\<lambda>opnd t. if is_rsp_opnd opnd then t else taint e opnd t) (instr_dsts instr) s
         else fold (\<lambda>opnd t. if is_rsp_opnd opnd then t else snd (untaint e opnd t))
                (instr_dsts instr) s)"

definition handle_xchg :: "instr_t \<Rightarrow> tracer \<Rightarrow> bool \<times> tracer" where
  "handle_xchg instr s =
     (case instr_srcs instr of
        [opnd_0, opnd_1] \<Rightarrow>
          (case (opnd_0, opnd_1) of
             (OPND_REG r0, OPND_REG r1) \<Rightarrow>
               (let reg_0 = reg_to_full_width64 r0;
                    reg_1 = reg_to_full_width64 r1;
                    reg_0_tainted = reg_0 \<in> tainted_regs s;
                    reg_1_tainted = reg_1 \<in> tainted_regs s
                in if reg_0_tainted \<and> \<not> reg_1_tainted
                   then (True, s\<lparr>tainted_regs := insert reg_1 (tainted_regs s - {reg_0})\<rparr>)
                   else if reg_1_tainted \<and> \<not> reg_0_tainted
                   then (True, s\<lparr>tainted_regs := insert reg_0 (tainted_regs s - {reg_1})\<rparr>)
                   else (False, s))
           | _ \<Rightarrow> (False, s))
      | _ \<Rightarrow> (False, s))"

text \<open>One step of the loop over the sources of an indirect branch.\<close>

definition taint_pc_from :: "opnd_t \<Rightarrow> tracer \<Rightarrow> tracer" where
  "taint_pc_from opnd s =
     (case opnd of
        OPND_REG r \<Rightarrow>
          (let reg = reg_to_full_width64 r
           in if reg \<noteq> reg_to_full_width64 DR_REG_ESP \<and> reg \<in> tainted_regs s
              then s\<lparr>tainted_regs := insert (reg_to_full_width64 DR_REG_NULL) (tainted_regs s)\<rparr>
              else s)
      | _ \<Rightarrow> s)"

definition handle_branches :: "env \<Rightarrow> instr_t \<Rightarrow> tracer \<Rightarrow> bool \<times> tracer" where
  "handle_branches e instr s =
     (let is_ret = instr_is_return instr;
          is_direct = (instr_is_ubr instr \<or> instr_is_cbr instr \<or> instr_is_call_direct instr);
          is_indirect = instr_is_mbr instr;
          is_call = instr_is_call instr
      in if \<not> is_ret \<and> \<not> is_direct \<and> \<not> is_indirect \<and> \<not> is_call then (False, s)
         else
           (let reg_pc = reg_to_full_width64 DR_REG_NULL;
                pc_tainted = (reg_pc \<in> tainted_regs s);
                s1 = (if is_call \<and> pc_tainted
                      then (case find opnd_is_memory_reference (instr_dsts instr) of
                              Some opnd \<Rightarrow> taint e opnd s
                            | None \<Rightarrow> s)
                      else s);
                s2 = (if is_direct \<and> pc_tainted
                      then s1\<lparr>tainted_regs := tainted_regs s1 - {reg_pc}\<rparr>
                      else s1);
                s3 = (if is_indirect then fold taint_pc_from (instr_srcs instr) s2 else s2);
                s4 = (if is_ret
                      then (if list_ex (is_tainted e s3) (instr_srcs instr)
                            then s3\<lparr>tainted_regs := insert reg_pc (tainted_regs s3)\<rparr>
                            else s3\<lparr>tainted_regs := tainted_regs s3 - {reg_pc}\<rparr>)
                      else s3)
            in (True, s4)))"

definition handle_specific :: "env \<Rightarrow> instr_t \<Rightarrow> tracer \<Rightarrow> bool \<times> tracer" where
  "handle_specific e instr s =
     (case handle_branches e instr s of
        (True, s') \<Rightarrow> (True, s')
      | (False, s') \<Rightarrow>
          (case instr_get_opcode instr of
             OP_push \<Rightarrow> (True, handle_push_pop e instr s')
           | OP_pop \<Rightarrow> (True, handle_push_pop e instr s')
           | OP_xor \<Rightarrow> handle_xor instr s'
           | OP_xchg \<Rightarrow> handle_xchg instr s'
           | OP_other n \<Rightarrow> (False, s')))"

text \<open>The two trace rings: write at the index, then advance it modulo \<^verbatim>\<open>LAST_COUNT\<close>.\<close>

definition record_insn :: "app_pc \<Rightarrow> tracer \<Rightarrow> tracer" where
  "record_insn pc s =
     s\<lparr>last_insns := (last_insns s)[last_insn_idx s := pc],
       last_insn_idx := (last_insn_idx s + 1) mod LAST_COUNT\<rparr>"

definition record_call :: "app_pc \<Rightarrow> tracer \<Rightarrow> tracer" where
  "record_call addr s =
     s\<lparr>last_calls := (last_calls s)[last_call_idx s := addr],
       last_call_idx := (last_call_idx s + 1) mod LAST_COUNT\<rparr>"

text \<open>
  \<^verbatim>\<open>propagate_taint\<close>, called before every application instruction. The source tests
  \<^verbatim>\<open>pc > module_start && pc < module_end\<close> both for the instruction ring and for the
  call ring.
\<close>

definition propagate_taint :: "env \<Rightarrow> app_pc \<Rightarrow> tracer \<Rightarrow> tracer" where
  "propagate_taint e pc s =
     (let s1 = (if pc > module_start s \<and> pc < module_end s then record_insn pc s else s)
      in if tainted_mems s1 = {} \<and> tainted_regs s1 = {} then s1
         else
           (let instr = decode e pc;
                s2 = (if instr_is_call instr
                      then (let target = instr_get_target instr
                            in if opnd_is_memory_reference target
                               then (let addr = opnd_compute_address e target
                                     in if pc > module_start s1 \<and> pc < module_end s1
                                        then record_call addr s1 else s1)
                               else s1)
                      else s1)
            in case handle_specific e instr s2 of
                 (True, s3) \<Rightarrow> s3
               | (False, s3) \<Rightarrow>
                   (let tainted = list_ex (is_tainted e s3) (instr_srcs instr)
                    in if tainted then fold (taint e) (instr_dsts instr) s3
                       else fold (\<lambda>opnd t. snd (untaint e opnd t)) (instr_dsts instr) s3)))"

subsection \<open>The crash report\<close>

datatype exception_code =
    EXCEPTION_ILLEGAL_INSTRUCTION
  | EXCEPTION_INT_DIVIDE_BY_ZERO
  | EXCEPTION_BREAKPOINT
  | EXCEPTION_OTHER "32 word"

text \<open>\<^verbatim>\<open>dr_exception_t\<close>: the exception record and the machine context at the fault.\<close>

record dr_exception_t =
  ExceptionCode :: exception_code
  ExceptionAddress :: app_pc
  mcontext :: "reg_id_t \<Rightarrow> 64 word"

text \<open>
  The JSON object that \<^verbatim>\<open>dump_json\<close> builds, one field per key. A register entry is
  named by its identifier (\<^verbatim>\<open>get_register_name\<close>) or by the literal \<^verbatim>\<open>"rip"\<close>.
\<close>

record crash_report =
  j_score :: "8 word"
  j_reason :: string
  j_exception :: exception_code
  j_location :: "64 word"
  j_instruction :: string
  j_pc_tainted :: bool
  j_stack_tainted :: bool
  j_is_ret :: bool
  j_is_indirect :: bool
  j_is_direct :: bool
  j_is_call :: bool
  j_mem_write :: bool
  j_mem_read :: bool
  j_tainted_src :: bool
  j_tainted_dst :: bool
  j_regs :: "((reg_id_t + string) \<times> 64 word \<times> bool) list"
  j_last_calls :: "64 word list"
  j_last_insns :: "64 word list"
  j_tainted_addrs :: "(64 word \<times> 64 word) list"

text \<open>
  The loop over \<^verbatim>\<open>tainted_mems\<close> after its first element: \<open>start\<close> and \<open>size\<close> are the
  loop's variables, the list is what the iterator has still to visit, the result is what
  is pushed to \<^verbatim>\<open>j["tainted_addrs"]\<close> from here on, the last extent included.
\<close>

fun coalesce :: "64 word \<Rightarrow> 64 word \<Rightarrow> app_pc list \<Rightarrow> (64 word \<times> 64 word) list" where
  "coalesce start sz [] = [(start, sz)]"
| "coalesce start sz (cur # rest) =
     (if cur > start + sz
      then (start, sz) # coalesce cur (0 + 1) rest
      else coalesce start (sz + 1) rest)"

text \<open>A \<^verbatim>\<open>std::set\<close> is iterated in ascending order of its keys.\<close>

definition tainted_addrs :: "app_pc set \<Rightarrow> (64 word \<times> 64 word) list" where
  "tainted_addrs tm =
     (case sorted_list_of_set tm of
        [] \<Rightarrow> []
      | first # rest \<Rightarrow> coalesce first 1 rest)"

definition dump_regs_list :: "reg_id_t list" where
  "dump_regs_list =
     [DR_REG_RAX, DR_REG_RBX, DR_REG_RCX, DR_REG_RDX, DR_REG_RSP, DR_REG_RBP,
      DR_REG_RSI, DR_REG_RDI, DR_REG_R8, DR_REG_R9, DR_REG_R10, DR_REG_R11,
      DR_REG_R12, DR_REG_R13, DR_REG_R14, DR_REG_R15]"

definition ring_from :: "nat \<Rightarrow> app_pc list \<Rightarrow> 64 word list" where
  "ring_from idx ring = map (\<lambda>i. ring ! ((idx + i) mod LAST_COUNT)) [0..<LAST_COUNT]"

definition dump_json ::
  "tracer \<Rightarrow> 8 word \<Rightarrow> string \<Rightarrow> dr_exception_t \<Rightarrow> string \<Rightarrow> bool \<Rightarrow> bool \<Rightarrow> bool \<Rightarrow> bool \<Rightarrow>
   bool \<Rightarrow> bool \<Rightarrow> bool \<Rightarrow> bool \<Rightarrow> bool \<Rightarrow> bool \<Rightarrow> crash_report" where
  "dump_json s score reason excpt disassembly pc_tainted stack_tainted is_ret is_indirect
     is_direct is_call mem_write mem_read tainted_src tainted_dst =
     \<lparr>j_score = score,
      j_reason = reason,
      j_exception = ExceptionCode excpt,
      j_location = ExceptionAddress excpt,
      j_instruction = disassembly,
      j_pc_tainted = pc_tainted,
      j_stack_tainted = stack_tainted,
      j_is_ret = is_ret,
      j_is_indirect = is_indirect,
      j_is_direct = is_direct,
      j_is_call = is_call,
      j_mem_write = mem_write,
      j_mem_read = mem_read,
      j_tainted_src = tainted_src,
      j_tainted_dst = tainted_dst,
      j_regs = map (\<lambda>r. (Inl r, mcontext excpt r, r \<in> tainted_regs s)) dump_regs_list
               @ [(Inr ''rip'', ExceptionAddress excpt, DR_REG_NULL \<in> tainted_regs s)],
      j_last_calls = ring_from (last_call_idx s) (last_calls s),
      j_last_insns = ring_from (last_insn_idx s) (last_insns s),
      j_tainted_addrs = tainted_addrs (tainted_mems s)\<rparr>"

subsection \<open>Writing the crash and ending the process\<close>

text \<open>
  \<^verbatim>\<open>dump_crash\<close> does not return: it ends in \<^verbatim>\<open>dr_abort\<close> or in
  \<^verbatim>\<open>dr_exit_process(1)\<close>. Its result is how the process ended: the state at that
  moment, the report string it built, the files it wrote (in order), and the way the
  process ended. A failed \<^verbatim>\<open>CreateFile\<close> of the memory dump is only logged: the
  source goes on to \<^verbatim>\<open>MiniDumpWriteDump\<close> with the invalid handle, whose result it
  does not read.
\<close>

datatype ending = Exit_process nat | Abort

datatype artifact = Crash_file crash_report | Full_memory_dump

record outcome =
  final_state :: tracer
  crash_json :: crash_report
  files :: "artifact list"
  ended :: ending

definition dump_crash ::
  "env \<Rightarrow> tracer \<Rightarrow> dr_exception_t \<Rightarrow> string \<Rightarrow> 8 word \<Rightarrow> string \<Rightarrow> bool \<Rightarrow> bool \<Rightarrow> bool \<Rightarrow>
   bool \<Rightarrow> bool \<Rightarrow> bool \<Rightarrow> bool \<Rightarrow> bool \<Rightarrow> bool \<Rightarrow> bool \<Rightarrow> outcome" where
  "dump_crash e s excpt reason score disassembly pc_tainted stack_tainted is_ret is_indirect
     is_direct is_call mem_write mem_read tainted_src tainted_dst =
     (let json = dump_json s score reason excpt disassembly pc_tainted stack_tainted is_ret
                   is_indirect is_direct is_call mem_write mem_read tainted_src tainted_dst
      in if replay s then
           (let s1 = s\<lparr>requests := requests s @ [Request_crash_paths]\<rparr>
            in if \<not> crash_file_opens e
               then \<lparr>final_state = s1, crash_json = json, files = [], ended = Abort\<rparr>
               else if \<not> crash_file_writes e
               then \<lparr>final_state = s1, crash_json = json, files = [], ended = Abort\<rparr>
               else \<lparr>final_state = s1, crash_json = json,
                     files = Crash_file json #
                             (if dump_file_opens e \<and> minidump_writes e
                              then [Full_memory_dump] else []),
                     ended = Exit_process 1\<rparr>)
         else \<lparr>final_state = s, crash_json = json, files = [], ended = Exit_process 1\<rparr>)"

subsection \<open>Exception triage\<close>

text \<open>
  \<^verbatim>\<open>on_exception\<close>. Every \<^verbatim>\<open>if\<close> of the source ends in a call of
  \<^verbatim>\<open>dump_crash\<close>, which does not return, so the ladder is a chain of
  \<open>if ... then ... else\<close>; the \<^verbatim>\<open>return true\<close> after the last call is never reached.
  The operands are surveyed only after the return rows.
\<close>

definition on_exception :: "env \<Rightarrow> dr_exception_t \<Rightarrow> tracer \<Rightarrow> outcome" where
  "on_exception e excpt s0 =
     (let s = s0\<lparr>crashed := True\<rparr>;
          exception_code = ExceptionCode excpt;
          reg_pc = reg_to_full_width64 DR_REG_NULL;
          reg_stack = reg_to_full_width64 DR_REG_ESP;
          pc_tainted = (reg_pc \<in> tainted_regs s);
          stack_tainted = (reg_stack \<in> tainted_regs s);
          exception_address = ExceptionAddress excpt
      in if IsBadReadPtr e exception_address then
           (if pc_tainted
            then dump_crash e s excpt ''oob execution tainted pc'' 100 [] pc_tainted
                   stack_tainted False False False False False False False False
            else dump_crash e s excpt ''oob execution'' 50 [] pc_tainted
                   stack_tainted False False False False False False False False)
         else
           (let instr = decode e exception_address;
                disassembly = instr_disassemble instr;
                is_ret = instr_is_return instr;
                is_direct =
                  (instr_is_ubr instr \<or> instr_is_cbr instr \<or> instr_is_call_direct instr);
                is_indirect = instr_is_mbr instr;
                is_call = instr_is_call instr;
                mem_write = instr_writes_memory instr;
                mem_read = instr_reads_memory instr
            in if exception_code = EXCEPTION_ILLEGAL_INSTRUCTION then
                 (if pc_tainted
                  then dump_crash e s excpt ''illegal instruction tainted pc'' 100 disassembly
                         pc_tainted stack_tainted False False False False False False False False
                  else dump_crash e s excpt ''illegal instruction'' 50 disassembly
                         pc_tainted stack_tainted False False False False False False False False)
               else if exception_code = EXCEPTION_INT_DIVIDE_BY_ZERO then
                 dump_crash e s excpt ''divide by zero'' 50 disassembly pc_tainted stack_tainted
                   is_ret is_indirect is_direct is_call mem_write mem_read False False
               else if exception_code = EXCEPTION_BREAKPOINT then
                 dump_crash e s excpt ''breakpoint'' 25 disassembly pc_tainted stack_tainted
                   is_ret is_indirect is_direct is_call mem_write mem_read False False
               else if is_direct \<or> is_indirect \<or> is_call then
                 (if pc_tainted
                  then dump_crash e s excpt ''branching tainted pc'' 75 disassembly pc_tainted
                         stack_tainted is_ret is_indirect is_direct is_call mem_write mem_read
                         False False
                  else dump_crash e s excpt ''branching'' 25 disassembly pc_tainted
                         stack_tainted is_ret is_indirect is_direct is_call mem_write mem_read
                         False False)
               else if is_ret then
                 (if pc_tainted \<or> stack_tainted
                  then dump_crash e s excpt ''return with taint'' 100 disassembly pc_tainted
                         stack_tainted is_ret is_indirect is_direct is_call mem_write mem_read
                         False False
                  else dump_crash e s excpt ''return'' 75 disassembly pc_tainted
                         stack_tainted is_ret is_indirect is_direct is_call mem_write mem_read
                         False False)
               else
                 (let tainted_src = list_ex (is_tainted e s) (instr_srcs instr);
                      tainted_dst = list_ex (is_tainted e s) (instr_dsts instr)
                  in if mem_write then
                       (if tainted_src \<or> tainted_dst
                        then dump_crash e s excpt ''tainted write'' 75 disassembly pc_tainted
                               stack_tainted is_ret is_indirect is_direct is_call mem_write
                               mem_read tainted_src tainted_dst
                        else dump_crash e s excpt ''write'' 50 disassembly pc_tainted
                               stack_tainted is_ret is_indirect is_direct is_call mem_write
                               mem_read tainted_src tainted_dst)
                     else if mem_read then
                       (if tainted_src
                        then dump_crash e s excpt ''tainted read'' 75 disassembly pc_tainted
                               stack_tainted is_ret is_indirect is_direct is_call mem_write
                               mem_read tainted_src tainted_dst
                        else dump_crash e s excpt ''read'' 25 disassembly pc_tainted
                               stack_tainted is_ret is_indirect is_direct is_call mem_write
                               mem_read tainted_src tainted_dst)
                     else dump_crash e s excpt ''unknown'' 50 disassembly pc_tainted
                            stack_tainted is_ret is_indirect is_direct is_call mem_write
                            mem_read tainted_src tainted_dst)))"

subsection \<open>The scoring matrix as the specification words it\<close>

text \<open>
  Step 3 of the specification's triage sequence: the taint of the program counter and of
  the stack pointer, the classification of the decoded faulting instruction, and the survey
  of its source and destination operands against the shadow state.
\<close>

record triage_facts =
  t_not_readable :: bool
  t_exception :: exception_code
  t_instruction :: string
  t_pc_tainted :: bool
  t_stack_tainted :: bool
  t_is_ret :: bool
  t_is_direct :: bool
  t_is_indirect :: bool
  t_is_call :: bool
  t_mem_write :: bool
  t_mem_read :: bool
  t_tainted_src :: bool
  t_tainted_dst :: bool

definition step3 :: "env \<Rightarrow> dr_exception_t \<Rightarrow> tracer \<Rightarrow> triage_facts" where
  "step3 e excpt s =
     (let instr = decode e (ExceptionAddress excpt)
      in \<lparr>t_not_readable = IsBadReadPtr e (ExceptionAddress excpt),
          t_exception = ExceptionCode excpt,
          t_instruction = instr_disassemble instr,
          t_pc_tainted = (DR_REG_NULL \<in> tainted_regs s),
          t_stack_tainted = (DR_REG_RSP \<in> tainted_regs s),
          t_is_ret = instr_is_return instr,
          t_is_direct =
            (instr_is_ubr instr \<or> instr_is_cbr instr \<or> instr_is_call_direct instr),
          t_is_indirect = instr_is_mbr instr,
          t_is_call = instr_is_call instr,
          t_mem_write = instr_writes_memory instr,
          t_mem_read = instr_reads_memory instr,
          t_tainted_src = list_ex (is_tainted e s) (instr_srcs instr),
          t_tainted_dst = list_ex (is_tainted e s) (instr_dsts instr)\<rparr>)"

text \<open>The ordered table of section 4.7: condition, reason, score.\<close>

definition scoring_matrix :: "((triage_facts \<Rightarrow> bool) \<times> string \<times> 8 word) list" where
  "scoring_matrix =
     [(\<lambda>f. t_not_readable f \<and> t_pc_tainted f, ''oob execution tainted pc'', 100),
      (\<lambda>f. t_not_readable f, ''oob execution'', 50),
      (\<lambda>f. t_exception f = EXCEPTION_ILLEGAL_INSTRUCTION \<and> t_pc_tainted f,
         ''illegal instruction tainted pc'', 100),
      (\<lambda>f. t_exception f = EXCEPTION_ILLEGAL_INSTRUCTION, ''illegal instruction'', 50),
      (\<lambda>f. t_exception f = EXCEPTION_INT_DIVIDE_BY_ZERO, ''divide by zero'', 50),
      (\<lambda>f. t_exception f = EXCEPTION_BREAKPOINT, ''breakpoint'', 25),
      (\<lambda>f. (t_is_direct f \<or> t_is_indirect f \<or> t_is_call f) \<and> t_pc_tainted f,
         ''branching tainted pc'', 75),
      (\<lambda>f. t_is_direct f \<or> t_is_indirect f \<or> t_is_call f, ''branching'', 25),
      (\<lambda>f. t_is_ret f \<and> (t_pc_tainted f \<or> t_stack_tainted f), ''return with taint'', 100),
      (\<lambda>f. t_is_ret f, ''return'', 75),
      (\<lambda>f. t_mem_write f \<and> (t_tainted_src f \<or> t_tainted_dst f), ''tainted write'', 75),
      (\<lambda>f. t_mem_write f, ''write'', 50),
      (\<lambda>f. t_mem_read f \<and> t_tainted_src f, ''tainted read'', 75),
      (\<lambda>f. t_mem_read f, ''read'', 25),
      (\<lambda>f. True, ''unknown'', 50)]"

definition first_matching_row :: "triage_facts \<Rightarrow> (string \<times> 8 word) option" where
  "first_matching_row f = map_option snd (find (\<lambda>row. fst row f) scoring_matrix)"

text \<open>The nine report fields that the specification derives from step 3.\<close>

definition reflects_step3 :: "crash_report \<Rightarrow> triage_facts \<Rightarrow> bool" where
  "reflects_step3 j f \<longleftrightarrow>
     j_instruction j = t_instruction f \<and> j_is_ret j = t_is_ret f \<and>
     j_is_direct j = t_is_direct f \<and> j_is_indirect j = t_is_indirect f \<and>
     j_is_call j = t_is_call f \<and> j_mem_write j = t_mem_write f \<and>
     j_mem_read j = t_mem_read f \<and> j_tainted_src j = t_tainted_src f \<and>
     j_tainted_dst j = t_tainted_dst f"

text \<open>The same without the two survey fields.\<close>

definition reflects_decoding :: "crash_report \<Rightarrow> triage_facts \<Rightarrow> bool" where
  "reflects_decoding j f \<longleftrightarrow>
     j_instruction j = t_instruction f \<and> j_is_ret j = t_is_ret f \<and>
     j_is_direct j = t_is_direct f \<and> j_is_indirect j = t_is_indirect f \<and>
     j_is_call j = t_is_call f \<and> j_mem_write j = t_mem_write f \<and>
     j_mem_read j = t_mem_read f"

definition all_flags_false :: "crash_report \<Rightarrow> bool" where
  "all_flags_false j \<longleftrightarrow>
     \<not> j_is_ret j \<and> \<not> j_is_direct j \<and> \<not> j_is_indirect j \<and> \<not> j_is_call j \<and>
     \<not> j_mem_write j \<and> \<not> j_mem_read j \<and> \<not> j_tainted_src j \<and> \<not> j_tainted_dst j"

subsection \<open>Input interception: the post-hooks\<close>

text \<open>
  The ways a post-hook leaves the behaviour the language defines. When
  \<^verbatim>\<open>is_sane_post_hook\<close> fails, the source jumps to \<^verbatim>\<open>cleanup\<close> over the
  initialisation of \<^verbatim>\<open>info\<close> and frees through the uninitialised pointer.
\<close>

datatype hook_error = Uninitialised_info | Dangling_user_data | Free_of_null

definition increment_call_count :: "nat \<Rightarrow> tracer \<Rightarrow> tracer" where
  "increment_call_count fn s = s\<lparr>call_counts := (call_counts s)(fn := call_counts s fn + 1)\<rparr>"

text \<open>The block under \<^verbatim>\<open>dr_mutex_lock(mutatex)\<close>, the same in both post-hooks.\<close>

definition replay_mutation :: "client_read_info \<Rightarrow> tracer \<Rightarrow> tracer" where
  "replay_mutation info s =
     (let s1 = s\<lparr>requests := requests s @ [Mutex_lock]\<rparr>;
          s2 = (if no_mutate s1 then s1
                else s1\<lparr>requests := requests s1 @
                          [Request_replay (mutate_count s1) (nNumberOfBytesToRead info)
                             (lpBuffer info)]\<rparr>);
          s3 = s2\<lparr>mutate_count := mutate_count s2 + 1\<rparr>
      in s3\<lparr>requests := requests s3 @ [Mutex_unlock]\<rparr>)"

definition dr_thread_free_hash :: "nat \<Rightarrow> tracer \<Rightarrow> tracer" where
  "dr_thread_free_hash h s = s\<lparr>live_hashes := live_hashes s - {h}\<rparr>"

definition dr_thread_free_info :: "nat \<Rightarrow> tracer \<Rightarrow> tracer" where
  "dr_thread_free_info p s = s\<lparr>live_infos := (live_infos s)(p := None)\<rparr>"

text \<open>\<^verbatim>\<open>wrap_post_Generic\<close>; \<open>user_data\<close> is the address of the client-read record.\<close>

definition wrap_post_Generic :: "env \<Rightarrow> nat \<Rightarrow> tracer \<Rightarrow> hook_error + tracer" where
  "wrap_post_Generic e user_data s =
     (if \<not> is_sane_post_hook e then Inl Uninitialised_info
      else case live_infos s user_data of
             None \<Rightarrow> Inl Dangling_user_data
           | Some info \<Rightarrow>
               (let targeted = is_function_targeted e info;
                    s1 = increment_call_count (info_function info) s;
                    s2 = (if targeted
                          then taint_mem (lpBuffer info) (nNumberOfBytesToRead info) s1
                          else s1);
                    s3 = (if replay s2 \<and> targeted then replay_mutation info s2 else s2);
                    s4 = (case argHash info of
                            Some h \<Rightarrow> dr_thread_free_hash h s3
                          | None \<Rightarrow> s3)
                in Inr (dr_thread_free_info user_data s4)))"

text \<open>
  \<^verbatim>\<open>wrap_post_MapViewOfFile\<close>. The buffer is the call's return value, a length of zero
  is replaced by the size of the mapped region, and the hash is freed without a test. The
  bytes that \<^verbatim>\<open>hash_args\<close> writes are not modelled: the client library's answer on
  the updated record stands for them.
\<close>

definition wrap_post_MapViewOfFile :: "env \<Rightarrow> nat \<Rightarrow> tracer \<Rightarrow> hook_error + tracer" where
  "wrap_post_MapViewOfFile e user_data s =
     (if \<not> is_sane_post_hook e then Inl Uninitialised_info
      else case live_infos s user_data of
             None \<Rightarrow> Inl Dangling_user_data
           | Some info0 \<Rightarrow>
               (let info1 = info0\<lparr>lpBuffer := drwrap_get_retval e\<rparr>;
                    info = (if nNumberOfBytesToRead info1 = 0
                            then info1\<lparr>nNumberOfBytesToRead := region_size e\<rparr>
                            else info1);
                    s0 = s\<lparr>live_infos := (live_infos s)(user_data \<mapsto> info)\<rparr>;
                    interesting_call = mapped_file_name_found e;
                    targeted = is_function_targeted e info;
                    s1 = increment_call_count (info_function info) s0;
                    s2 = (if targeted
                          then taint_mem (lpBuffer info) (nNumberOfBytesToRead info) s1
                          else s1);
                    s3 = (if interesting_call \<and> replay s2 \<and> targeted
                          then replay_mutation info s2 else s2)
                in case argHash info of
                     None \<Rightarrow> Inl Free_of_null
                   | Some h \<Rightarrow> Inr (dr_thread_free_info user_data (dr_thread_free_hash h s3))))"

subsection \<open>Frames\<close>

text \<open>The second state differs from the first in the two taint sets at most.\<close>

definition shadow_only :: "tracer \<Rightarrow> tracer \<Rightarrow> bool" where
  "shadow_only s s' \<longleftrightarrow>
     s' = s\<lparr>tainted_regs := tainted_regs s', tainted_mems := tainted_mems s'\<rparr>"

subsection \<open>Concrete runs\<close>

text \<open>
  A module at \<open>[0x400000, 0x500000)\<close> with three instructions, one tainted register,
  three tainted bytes and two outstanding client-read records.
\<close>

definition nop_instr :: instr_t where
  "nop_instr =
     \<lparr>instr_get_opcode = OP_other 0, instr_srcs = [], instr_dsts = [],
      instr_get_target = OPND_OTHER, instr_is_return = False, instr_is_ubr = False,
      instr_is_cbr = False, instr_is_call_direct = False, instr_is_mbr = False,
      instr_is_call = False, instr_writes_memory = False, instr_reads_memory = False,
      instr_disassemble = ''nop''\<rparr>"

definition xor_ebx_ebx :: instr_t where
  "xor_ebx_ebx =
     nop_instr\<lparr>instr_get_opcode := OP_xor,
               instr_srcs := [OPND_REG DR_REG_EBX, OPND_REG DR_REG_EBX],
               instr_dsts := [OPND_REG DR_REG_EBX],
               instr_disassemble := ''xor ebx, ebx''\<rparr>"

definition call_import :: instr_t where
  "call_import =
     nop_instr\<lparr>instr_srcs := [OPND_ABS_ADDR 0x7FF800001000 8, OPND_REG DR_REG_RSP],
               instr_dsts := [OPND_REG DR_REG_RSP, OPND_BASE_DISP DR_REG_RSP DR_REG_NULL (-8) 8],
               instr_get_target := OPND_ABS_ADDR 0x7FF800001000 8,
               instr_is_mbr := True, instr_is_call := True,
               instr_writes_memory := True, instr_reads_memory := True,
               instr_disassemble := ''call qword ptr [0x00007ff800001000]''\<rparr>"

definition mov_load :: instr_t where
  "mov_load =
     nop_instr\<lparr>instr_srcs := [OPND_BASE_DISP DR_REG_RBX DR_REG_NULL 0 8],
               instr_dsts := [OPND_REG DR_REG_RAX],
               instr_reads_memory := True,
               instr_disassemble := ''mov rax, qword ptr [rbx]''\<rparr>"

definition ex_env :: env where
  "ex_env =
     \<lparr>decode = (\<lambda>pc. if pc = 0x401000 then xor_ebx_ebx
                     else if pc = 0x401010 \<or> pc = 0x500010 then call_import
                     else if pc = 0x401020 then mov_load
                     else nop_instr),
      opnd_compute_address =
        (\<lambda>opnd. case opnd of OPND_ABS_ADDR a n \<Rightarrow> a | _ \<Rightarrow> 0x7FFE0000),
      reg_of_disp = (\<lambda>d. if d = 0 then DR_REG_NULL else DR_REG_OTHER (nat \<bar>d\<bar>)),
      IsBadReadPtr = (\<lambda>a. a = 0),
      crash_file_opens = True,
      crash_file_writes = True,
      dump_file_opens = True,
      minidump_writes = True,
      is_sane_post_hook = True,
      is_function_targeted = (\<lambda>info. info_function info = 1),
      drwrap_get_retval = 0x20000,
      region_size = 4096,
      mapped_file_name_found = True\<rparr>"

definition ex_state :: tracer where
  "ex_state =
     \<lparr>tainted_regs = {DR_REG_RBX},
      tainted_mems = {0x1000, 0x1001, 0x1003},
      last_call_idx = 0,
      last_insn_idx = 0,
      last_calls = [0, 0, 0, 0, 0],
      last_insns = [0, 0, 0, 0, 0],
      module_start = 0x400000,
      module_end = 0x500000,
      replay = True,
      no_mutate = False,
      crashed = False,
      mutate_count = 0,
      requests = [],
      call_counts = (\<lambda>fn. 0),
      live_infos =
        [7 \<mapsto> \<lparr>info_function = 1, lpBuffer = 0x1000, nNumberOfBytesToRead = 2,
                argHash = Some 9\<rparr>,
         8 \<mapsto> \<lparr>info_function = 2, lpBuffer = 0x3000, nNumberOfBytesToRead = 4,
                argHash = Some 10\<rparr>],
      live_hashes = {9, 10}\<rparr>"


text \<open>The same environment when \<^verbatim>\<open>is_sane_post_hook\<close> answers no.\<close>

definition ex_env_insane :: env where
  "ex_env_insane = ex_env\<lparr>is_sane_post_hook := False\<rparr>"

definition ex_excpt :: dr_exception_t where
  "ex_excpt =
     \<lparr>ExceptionCode = EXCEPTION_OTHER 0xC0000005, ExceptionAddress = 0x401020,
      mcontext = (\<lambda>r. 0)\<rparr>"

definition ex_excpt_illegal :: dr_exception_t where
  "ex_excpt_illegal = ex_excpt\<lparr>ExceptionCode := EXCEPTION_ILLEGAL_INSTRUCTION\<rparr>"

definition ex_state_no_replay :: tracer where
  "ex_state_no_replay = ex_state\<lparr>replay := False\<rparr>"

definition ex_env_no_dump_file :: env where
  "ex_env_no_dump_file = ex_env\<lparr>dump_file_opens := False\<rparr>"


section \<open>Properties\<close>

subsection \<open>The propagation engine changes the taint sets only\<close>

lemma shadow_only_refl: "shadow_only s s"
  by (simp add: shadow_only_def)

lemma shadow_only_trans: "shadow_only a b \<Longrightarrow> shadow_only b c \<Longrightarrow> shadow_only a c"
  unfolding shadow_only_def
  by (metis (no_types, lifting) tracer.surjective tracer.update_convs(1,2))

lemma shadow_only_regs: "shadow_only s (s\<lparr>tainted_regs := X\<rparr>)"
  by (simp add: shadow_only_def)

lemma shadow_only_mems: "shadow_only s (s\<lparr>tainted_mems := X\<rparr>)"
  by (simp add: shadow_only_def)

lemma shadow_only_fold:
  assumes "\<And>x t. shadow_only t (f x t)"
  shows "shadow_only s (fold f xs s)"
proof (induction xs arbitrary: s)
  case Nil
  show ?case by (simp add: shadow_only_refl)
next
  case (Cons x xs)
  have "shadow_only s (f x s)" by (rule assms)
  moreover have "shadow_only (f x s) (fold f xs (f x s))" by (rule Cons.IH)
  ultimately show ?case by (simp add: shadow_only_trans)
qed

lemma shadow_only_taint: "shadow_only s (taint e opnd s)"
  by (cases opnd) (simp_all add: taint_def taint_mem_def shadow_only_regs shadow_only_mems shadow_only_refl)

lemma shadow_only_untaint: "shadow_only s (snd (untaint e opnd s))"
  by (cases opnd) (simp_all add: untaint_def untaint_mem_def shadow_only_regs shadow_only_mems shadow_only_refl)

lemma shadow_only_handle_xor: "shadow_only s (snd (handle_xor instr s))"
  by (simp add: handle_xor_def Let_def shadow_only_regs shadow_only_refl
      split: list.splits opnd_t.splits)

lemma shadow_only_handle_xchg: "shadow_only s (snd (handle_xchg instr s))"
  by (simp add: handle_xchg_def Let_def shadow_only_regs shadow_only_refl
      split: list.splits opnd_t.splits)

lemma shadow_only_handle_push_pop: "shadow_only s (handle_push_pop e instr s)"
  unfolding handle_push_pop_def Let_def
  by (simp add: shadow_only_fold shadow_only_taint shadow_only_untaint shadow_only_refl)

lemma shadow_only_taint_pc_from: "shadow_only s (taint_pc_from opnd s)"
  by (cases opnd) (simp_all add: taint_pc_from_def Let_def shadow_only_regs shadow_only_refl)

lemma shadow_only_handle_branches: "shadow_only s (snd (handle_branches e instr s))"
proof -
  define s1 where "s1 = (if instr_is_call instr \<and> DR_REG_NULL \<in> tainted_regs s
                      then (case find opnd_is_memory_reference (instr_dsts instr) of
                              Some opnd \<Rightarrow> taint e opnd s
                            | None \<Rightarrow> s)
                      else s)"
  have 1: "shadow_only s s1"
    by (simp add: s1_def shadow_only_taint shadow_only_refl split: option.splits)
  define s2 where "s2 = (if (instr_is_ubr instr \<or> instr_is_cbr instr \<or> instr_is_call_direct instr) \<and> DR_REG_NULL \<in> tainted_regs s
                      then s1\<lparr>tainted_regs := tainted_regs s1 - {DR_REG_NULL}\<rparr>
                      else s1)"
  have 2: "shadow_only s1 s2"
    by (simp add: s2_def shadow_only_regs shadow_only_refl)
  define s3 where "s3 = (if instr_is_mbr instr then fold taint_pc_from (instr_srcs instr) s2 else s2)"
  have 3: "shadow_only s2 s3"
    by (simp add: s3_def shadow_only_fold shadow_only_taint_pc_from shadow_only_refl)
  define s4 where "s4 = (if instr_is_return instr
                      then (if list_ex (is_tainted e s3) (instr_srcs instr)
                            then s3\<lparr>tainted_regs := insert DR_REG_NULL (tainted_regs s3)\<rparr>
                            else s3\<lparr>tainted_regs := tainted_regs s3 - {DR_REG_NULL}\<rparr>)
                      else s3)"
  have 4: "shadow_only s3 s4"
    by (simp add: s4_def shadow_only_regs shadow_only_refl)
  have "shadow_only s s4"
    using 1 2 3 4 shadow_only_trans by blast
  moreover have "snd (handle_branches e instr s) = s4 \<or> snd (handle_branches e instr s) = s"
    by (simp add: handle_branches_def Let_def s4_def s3_def s2_def s1_def)
  ultimately show ?thesis
    using shadow_only_refl by auto
qed

lemma shadow_only_handle_specific: "shadow_only s (snd (handle_specific e instr s))"
proof (cases "handle_branches e instr s")
  case (Pair b s')
  have s': "shadow_only s s'"
    using shadow_only_handle_branches [of s e instr] Pair by simp
  show ?thesis
  proof (cases b)
    case True
    then show ?thesis using Pair s' by (simp add: handle_specific_def)
  next
    case False
    have "shadow_only s' (snd (case instr_get_opcode instr of
             OP_push \<Rightarrow> (True, handle_push_pop e instr s')
           | OP_pop \<Rightarrow> (True, handle_push_pop e instr s')
           | OP_xor \<Rightarrow> handle_xor instr s'
           | OP_xchg \<Rightarrow> handle_xchg instr s'
           | OP_other n \<Rightarrow> (False, s')))"
      by (simp add: shadow_only_handle_push_pop shadow_only_handle_xor shadow_only_handle_xchg
          shadow_only_refl split: opcode_t.splits)
    then show ?thesis
      using Pair False s' by (simp add: handle_specific_def shadow_only_trans)
  qed
qed

lemma propagate_taint_shadow_only:
  "shadow_only
     (if pc > module_start s \<and> pc < module_end s
      then (if tainted_mems s = {} \<and> tainted_regs s = {} then record_insn pc s
            else if instr_is_call (decode e pc) \<and>
                    opnd_is_memory_reference (instr_get_target (decode e pc))
            then record_call (opnd_compute_address e (instr_get_target (decode e pc)))
                   (record_insn pc s)
            else record_insn pc s)
      else s)
     (propagate_taint e pc s)"
proof -
  have generic: "shadow_only t (case handle_specific e i t of
                 (True, s3) \<Rightarrow> s3
               | (False, s3) \<Rightarrow>
                   (if list_ex (is_tainted e s3) (instr_srcs i)
                    then fold (taint e) (instr_dsts i) s3
                    else fold (\<lambda>opnd t. snd (untaint e opnd t)) (instr_dsts i) s3))" for t i
  proof (cases "handle_specific e i t")
    case (Pair b s3)
    have a: "shadow_only t s3"
      using shadow_only_handle_specific [of t e i] Pair by simp
    have "shadow_only s3 (fold (taint e) (instr_dsts i) s3)"
      by (rule shadow_only_fold) (rule shadow_only_taint)
    moreover have "shadow_only s3 (fold (\<lambda>opnd t. snd (untaint e opnd t)) (instr_dsts i) s3)"
      by (rule shadow_only_fold) (rule shadow_only_untaint)
    ultimately show ?thesis
      using a Pair by (cases b) (auto intro: shadow_only_trans)
  qed
  show ?thesis
  proof (cases "module_start s < pc \<and> pc < module_end s")
    case True
    then show ?thesis
      unfolding propagate_taint_def Let_def
      by (simp add: record_insn_def record_call_def shadow_only_refl generic)
  next
    case False
    then have out: "(module_start s < pc \<and> pc < module_end s) = False"
      by simp
    show ?thesis
      unfolding propagate_taint_def Let_def
      by (simp add: out shadow_only_refl generic)
  qed
qed

lemma shadow_only_frame:
  assumes "shadow_only s s'"
  shows "last_insns s' = last_insns s" "last_insn_idx s' = last_insn_idx s"
    "last_calls s' = last_calls s" "last_call_idx s' = last_call_idx s"
    "module_start s' = module_start s" "module_end s' = module_end s"
    "replay s' = replay s" "no_mutate s' = no_mutate s" "crashed s' = crashed s"
    "mutate_count s' = mutate_count s" "requests s' = requests s"
proof -
  have eq: "s' = s\<lparr>tainted_regs := tainted_regs s', tainted_mems := tainted_mems s'\<rparr>"
    using assms by (simp add: shadow_only_def)
  show "last_insns s' = last_insns s" by (subst eq) simp
  show "last_insn_idx s' = last_insn_idx s" by (subst eq) simp
  show "last_calls s' = last_calls s" by (subst eq) simp
  show "last_call_idx s' = last_call_idx s" by (subst eq) simp
  show "module_start s' = module_start s" by (subst eq) simp
  show "module_end s' = module_end s" by (subst eq) simp
  show "replay s' = replay s" by (subst eq) simp
  show "no_mutate s' = no_mutate s" by (subst eq) simp
  show "crashed s' = crashed s" by (subst eq) simp
  show "mutate_count s' = mutate_count s" by (subst eq) simp
  show "requests s' = requests s" by (subst eq) simp
qed

subsection \<open>The instruction ring\<close>

text \<open>
  Claim C7, as amended. On every call of \<^verbatim>\<open>propagate_taint\<close> the pc is written to
  the instruction ring at the write index, and the index advances modulo 5, exactly when
  \<open>module_start < pc < module_end\<close>: the lower bound is strict. Otherwise the ring and
  its index are unchanged. The module bounds are unchanged, and a ring that holds only null
  entries and addresses strictly inside the module still does so afterwards.
\<close>

theorem insn_ring_strictly_inside:
  "last_insns (propagate_taint e pc s) =
     (if module_start s < pc \<and> pc < module_end s
      then (last_insns s)[last_insn_idx s := pc] else last_insns s) \<and>
   last_insn_idx (propagate_taint e pc s) =
     (if module_start s < pc \<and> pc < module_end s
      then (last_insn_idx s + 1) mod LAST_COUNT else last_insn_idx s) \<and>
   (last_insn_idx (propagate_taint e pc s) \<noteq> last_insn_idx s \<longleftrightarrow>
      module_start s < pc \<and> pc < module_end s) \<and>
   module_start (propagate_taint e pc s) = module_start s \<and>
   module_end (propagate_taint e pc s) = module_end s \<and>
   ((\<forall>a \<in> set (last_insns s). a = 0 \<or> module_start s < a \<and> a < module_end s) \<longrightarrow>
    (\<forall>a \<in> set (last_insns (propagate_taint e pc s)).
        a = 0 \<or> module_start s < a \<and> a < module_end s))"
proof -
  let ?inside = "module_start s < pc \<and> pc < module_end s"
  note fr = shadow_only_frame [OF propagate_taint_shadow_only [of s pc e]]
  have ring: "last_insns (propagate_taint e pc s) =
     (if ?inside then (last_insns s)[last_insn_idx s := pc] else last_insns s)"
    by (simp add: fr(1) record_insn_def record_call_def)
  have idx: "last_insn_idx (propagate_taint e pc s) =
     (if ?inside then (last_insn_idx s + 1) mod LAST_COUNT else last_insn_idx s)"
    by (simp add: fr(2) record_insn_def record_call_def)
  have moved: "(last_insn_idx s + 1) mod LAST_COUNT \<noteq> last_insn_idx s"
    unfolding LAST_COUNT_def by presburger
  have ms: "module_start (propagate_taint e pc s) = module_start s"
    by (simp add: fr(5) record_insn_def record_call_def)
  have me: "module_end (propagate_taint e pc s) = module_end s"
    by (simp add: fr(6) record_insn_def record_call_def)
  have inv: "\<forall>a \<in> set (last_insns (propagate_taint e pc s)).
        a = 0 \<or> module_start s < a \<and> a < module_end s"
    if h: "\<forall>a \<in> set (last_insns s). a = 0 \<or> module_start s < a \<and> a < module_end s"
  proof (cases ?inside)
    case True
    have "set ((last_insns s)[last_insn_idx s := pc]) \<subseteq> insert pc (set (last_insns s))"
      by (rule set_update_subset_insert)
    then show ?thesis using h True ring by auto
  next
    case False
    then show ?thesis using h ring by auto
  qed
  show ?thesis
    using ring idx moved ms me inv by simp
qed

text \<open>
  Witness for C7: the pc \<open>0x401000\<close> inside the module is recorded, the pc
  \<open>0x500000\<close> at the module's end is not, and the ring keeps its invariant.
\<close>

theorem insn_ring_strictly_inside_witness:
  "last_insns (propagate_taint ex_env 0x401000 ex_state) = [0x401000, 0, 0, 0, 0] \<and>
   last_insn_idx (propagate_taint ex_env 0x401000 ex_state) = 1 \<and>
   last_insns (propagate_taint ex_env 0x500000 ex_state) = [0, 0, 0, 0, 0] \<and>
   list_all (\<lambda>a. a = 0 \<or> module_start ex_state < a \<and> a < module_end ex_state)
     (last_insns (propagate_taint ex_env 0x401000 ex_state))"
  using insn_ring_strictly_inside [of ex_env "0x401000" ex_state]
    insn_ring_strictly_inside [of ex_env "0x500000" ex_state]
  by (simp add: ex_state_def LAST_COUNT_def)

text \<open>
  Counterexample to C7 as stated: \<open>pc = module_start\<close> lies in the half-open interval
  \<open>[module_start, module_end)\<close>, and the ring and its index are left as they were.
\<close>

theorem module_start_not_recorded:
  "module_start ex_state \<le> 0x400000 \<and> 0x400000 < module_end ex_state \<and>
   last_insns (propagate_taint ex_env 0x400000 ex_state) = last_insns ex_state \<and>
   last_insn_idx (propagate_taint ex_env 0x400000 ex_state) = last_insn_idx ex_state"
  by (simp add: propagate_taint_def Let_def ex_state_def ex_env_def nop_instr_def
      handle_specific_def handle_branches_def)

subsection \<open>The call ring\<close>

text \<open>
  Claim C8, as amended. During propagation the address computed for the target of a call
  whose target is a memory operand is written to the call ring, and the ring's index
  advances, exactly when the taint state is not empty (so that the instruction is decoded
  at all) and the pc of the call instruction lies strictly inside the module: the test is
  on the call site, not on the target. In every other case the call ring is unchanged.
\<close>

theorem call_ring_by_call_site:
  "last_calls (propagate_taint e pc s) =
     (if (tainted_mems s \<noteq> {} \<or> tainted_regs s \<noteq> {}) \<and>
         instr_is_call (decode e pc) \<and>
         opnd_is_memory_reference (instr_get_target (decode e pc)) \<and>
         module_start s < pc \<and> pc < module_end s
      then (last_calls s)
             [last_call_idx s := opnd_compute_address e (instr_get_target (decode e pc))]
      else last_calls s) \<and>
   last_call_idx (propagate_taint e pc s) =
     (if (tainted_mems s \<noteq> {} \<or> tainted_regs s \<noteq> {}) \<and>
         instr_is_call (decode e pc) \<and>
         opnd_is_memory_reference (instr_get_target (decode e pc)) \<and>
         module_start s < pc \<and> pc < module_end s
      then (last_call_idx s + 1) mod LAST_COUNT
      else last_call_idx s)"
proof -
  note fr = shadow_only_frame [OF propagate_taint_shadow_only [of s pc e]]
  show ?thesis
    unfolding fr(3) fr(4)
    by (auto simp: record_insn_def record_call_def)
qed

text \<open>
  Witness for C8: the call at \<open>0x401010\<close> through the slot \<open>0x7FF800001000\<close> is
  recorded; the same call seen at \<open>0x500010\<close>, outside the module, is not.
\<close>

theorem call_ring_by_call_site_witness:
  "last_calls (propagate_taint ex_env 0x401010 ex_state) = [0x7FF800001000, 0, 0, 0, 0] \<and>
   last_call_idx (propagate_taint ex_env 0x401010 ex_state) = 1 \<and>
   last_calls (propagate_taint ex_env 0x500010 ex_state) = [0, 0, 0, 0, 0] \<and>
   last_call_idx (propagate_taint ex_env 0x500010 ex_state) = 0"
  using call_ring_by_call_site [of ex_env "0x401010" ex_state]
    call_ring_by_call_site [of ex_env "0x500010" ex_state]
  by (simp add: ex_state_def ex_env_def call_import_def nop_instr_def LAST_COUNT_def)

text \<open>
  Counterexample to C8 as stated: the target address \<open>0x7FF800001000\<close> lies outside
  the module, and it is written to the call ring because the call site is inside.
\<close>

theorem call_target_outside_module_recorded:
  "instr_is_call (decode ex_env 0x401010) \<and>
   opnd_is_memory_reference (instr_get_target (decode ex_env 0x401010)) \<and>
   opnd_compute_address ex_env (instr_get_target (decode ex_env 0x401010)) = 0x7FF800001000 \<and>
   \<not> (0x7FF800001000 < module_end ex_state) \<and>
   last_calls (propagate_taint ex_env 0x401010 ex_state) = [0x7FF800001000, 0, 0, 0, 0]"
proof -
  note fr = shadow_only_frame [OF propagate_taint_shadow_only [of ex_state "0x401010" ex_env]]
  have ne: "(tainted_mems ex_state = {} \<and> tainted_regs ex_state = {}) = False"
    by (simp add: ex_state_def)
  have dec: "decode ex_env 0x401010 = call_import"
    by (simp add: ex_env_def)
  have addr: "opnd_compute_address ex_env (OPND_ABS_ADDR a n) = a" for a n
    by (simp add: ex_env_def)
  have ring: "last_calls (propagate_taint ex_env 0x401010 ex_state) =
                [0x7FF800001000, 0, 0, 0, 0]"
    unfolding fr(3) ne dec
    by (simp add: addr call_import_def nop_instr_def record_insn_def record_call_def
        ex_state_def)
  show ?thesis
    using ring by (simp add: dec addr call_import_def nop_instr_def ex_state_def)
qed

subsection \<open>xor of a register with itself\<close>

text \<open>
  Claim C9. An \<^verbatim>\<open>xor\<close> whose two source operands are registers with the same
  canonical register \<open>R\<close> leaves \<open>R\<close> out of the tainted registers, whatever the rest
  of the state (and whether or not \<open>R\<close> was tainted before). An \<^verbatim>\<open>xor\<close> is not a
  control transfer: DynamoRIO's branch predicates answer no on it.
\<close>

theorem xor_self_untaints:
  assumes "instr_get_opcode (decode e pc) = OP_xor"
    and "instr_srcs (decode e pc) = [OPND_REG r0, OPND_REG r1]"
    and "reg_to_full_width64 r0 = R"
    and "reg_to_full_width64 r1 = R"
    and "\<not> instr_is_return (decode e pc)"
    and "\<not> instr_is_ubr (decode e pc)"
    and "\<not> instr_is_cbr (decode e pc)"
    and "\<not> instr_is_call_direct (decode e pc)"
    and "\<not> instr_is_mbr (decode e pc)"
    and "\<not> instr_is_call (decode e pc)"
  shows "R \<notin> tainted_regs (propagate_taint e pc s)"
proof -
  have hb: "handle_branches e (decode e pc) t = (False, t)" for t
    using assms(5-10) by (simp add: handle_branches_def)
  have hx: "handle_xor (decode e pc) t = (True, t\<lparr>tainted_regs := tainted_regs t - {R}\<rparr>)" for t
    using assms(2-4) by (simp add: handle_xor_def)
  have hs: "handle_specific e (decode e pc) t = (True, t\<lparr>tainted_regs := tainted_regs t - {R}\<rparr>)"
    for t
    using assms(1) by (simp add: handle_specific_def hb hx)
  show ?thesis
    unfolding propagate_taint_def Let_def
    using assms(10) by (simp add: hs record_insn_def)
qed

text \<open>
  Witness for C9: \<^verbatim>\<open>xor ebx, ebx\<close> at \<open>0x401000\<close> with \<^verbatim>\<open>rbx\<close> tainted.
\<close>

theorem xor_self_untaints_witness:
  "DR_REG_RBX \<in> tainted_regs ex_state \<and>
   DR_REG_RBX \<notin> tainted_regs (propagate_taint ex_env 0x401000 ex_state)"
proof -
  have "DR_REG_RBX \<notin> tainted_regs (propagate_taint ex_env 0x401000 ex_state)"
    by (rule xor_self_untaints [where ?r0.0 = DR_REG_EBX and ?r1.0 = DR_REG_EBX])
       (simp_all add: ex_env_def xor_ebx_ebx_def nop_instr_def)
  then show ?thesis
    by (simp add: ex_state_def)
qed

subsection \<open>The post-hooks\<close>





text \<open>
  Claim C6 on the code, where \<^verbatim>\<open>is_sane_post_hook\<close> succeeds: when the call is not
  targeted, the generic post-hook returns with the tainted memory (and registers)
  unchanged, \<^verbatim>\<open>mutate_count\<close> unchanged and no request made, and it has freed the
  client-read record and the record's hash.
\<close>

lemma untargeted_post_hook_frame:
  assumes "is_sane_post_hook e"
    and "live_infos s user_data = Some info"
    and "\<not> is_function_targeted e info"
  shows "\<exists>s'. wrap_post_Generic e user_data s = Inr s' \<and>
           tainted_mems s' = tainted_mems s \<and>
           tainted_regs s' = tainted_regs s \<and>
           mutate_count s' = mutate_count s \<and>
           requests s' = requests s \<and>
           live_infos s' = (live_infos s)(user_data := None) \<and>
           live_hashes s' = live_hashes s - set_option (argHash info)"
  using assms
  by (simp add: wrap_post_Generic_def Let_def increment_call_count_def
      dr_thread_free_hash_def dr_thread_free_info_def split: option.splits)

text \<open>An instance: the record at address 8, whose function is not targeted.\<close>

lemma untargeted_post_hook_frame_instance:
  "\<exists>s'. wrap_post_Generic ex_env 8 ex_state = Inr s' \<and>
         tainted_mems s' = {0x1000, 0x1001, 0x1003} \<and>
         mutate_count s' = 0 \<and>
         requests s' = [] \<and>
         live_infos s' 8 = None \<and>
         live_hashes s' = {9}"
proof -
  have 1: "is_sane_post_hook ex_env"
    by (simp add: ex_env_def)
  have 2: "live_infos ex_state 8 =
             Some \<lparr>info_function = 2, lpBuffer = 0x3000, nNumberOfBytesToRead = 4,
                   argHash = Some 10\<rparr>"
    by (simp add: ex_state_def)
  have 3: "\<not> is_function_targeted ex_env
             \<lparr>info_function = 2, lpBuffer = 0x3000, nNumberOfBytesToRead = 4,
               argHash = Some 10\<rparr>"
    by (simp add: ex_env_def)
  show ?thesis
    using untargeted_post_hook_frame [OF 1 2 3] by (auto simp: ex_state_def)
qed

text \<open>
  When \<^verbatim>\<open>is_sane_post_hook\<close> fails, both post-hooks jump to \<^verbatim>\<open>cleanup\<close> before
  \<^verbatim>\<open>info\<close> is set from \<open>user_data\<close>, whatever the record and the state.
\<close>

lemma insane_post_hook:
  assumes "\<not> is_sane_post_hook e"
  shows "wrap_post_Generic e user_data s = Inl Uninitialised_info"
    and "wrap_post_MapViewOfFile e user_data s = Inl Uninitialised_info"
  using assms by (simp_all add: wrap_post_Generic_def wrap_post_MapViewOfFile_def)

text \<open>
  Claim C6 at its failing input: the record at address 8 is live and its call is not
  targeted, and \<^verbatim>\<open>is_sane_post_hook\<close> fails. The generic post-hook does not free the
  record: it reaches \<^verbatim>\<open>cleanup\<close> with \<^verbatim>\<open>info\<close> uninitialised and frees through
  that pointer. The post-hook of \<^verbatim>\<open>MapViewOfFile\<close> does the same.
\<close>

theorem insane_post_hook_does_not_free_record:
  "\<not> is_sane_post_hook ex_env_insane \<and>
   live_infos ex_state 8 =
     Some \<lparr>info_function = 2, lpBuffer = 0x3000, nNumberOfBytesToRead = 4,
           argHash = Some 10\<rparr> \<and>
   \<not> is_function_targeted ex_env_insane
       \<lparr>info_function = 2, lpBuffer = 0x3000, nNumberOfBytesToRead = 4,
         argHash = Some 10\<rparr> \<and>
   wrap_post_Generic ex_env_insane 8 ex_state = Inl Uninitialised_info \<and>
   wrap_post_MapViewOfFile ex_env_insane 8 ex_state = Inl Uninitialised_info"
  by (simp add: ex_env_insane_def ex_env_def ex_state_def wrap_post_Generic_def
      wrap_post_MapViewOfFile_def)

text \<open>The same for the post-hook of \<^verbatim>\<open>MapViewOfFile\<close>, whose record carries a hash.\<close>

lemma untargeted_map_view_frame:
  assumes "is_sane_post_hook e"
    and "live_infos s user_data = Some info0"
    and "argHash info0 = Some h"
    and "\<not> is_function_targeted e
            (if nNumberOfBytesToRead info0 = 0
             then info0\<lparr>lpBuffer := drwrap_get_retval e, nNumberOfBytesToRead := region_size e\<rparr>
             else info0\<lparr>lpBuffer := drwrap_get_retval e\<rparr>)"
  shows "\<exists>s'. wrap_post_MapViewOfFile e user_data s = Inr s' \<and>
           tainted_mems s' = tainted_mems s \<and>
           mutate_count s' = mutate_count s \<and>
           requests s' = requests s \<and>
           live_infos s' = (live_infos s)(user_data := None) \<and>
           live_hashes s' = live_hashes s - {h}"
  using assms
  by (auto simp: wrap_post_MapViewOfFile_def Let_def increment_call_count_def
      dr_thread_free_hash_def dr_thread_free_info_def split: option.splits if_splits)

subsection \<open>Triage\<close>

lemma dump_crash_fields:
  "crash_json (dump_crash e s excpt r sc d pt st a b c f g h i j) =
     dump_json s sc r excpt d pt st a b c f g h i j"
  "files (dump_crash e s excpt r sc d pt st a b c f g h i j) =
     (if replay s \<and> crash_file_opens e \<and> crash_file_writes e
      then Crash_file (dump_json s sc r excpt d pt st a b c f g h i j) #
           (if dump_file_opens e \<and> minidump_writes e then [Full_memory_dump] else [])
      else [])"
  "ended (dump_crash e s excpt r sc d pt st a b c f g h i j) =
     (if replay s \<and> (\<not> crash_file_opens e \<or> \<not> crash_file_writes e)
      then Abort else Exit_process 1)"
  "final_state (dump_crash e s excpt r sc d pt st a b c f g h i j) =
     (if replay s then s\<lparr>requests := requests s @ [Request_crash_paths]\<rparr> else s)"
  by (simp_all add: dump_crash_def Let_def)

lemma on_exception_cases:
  assumes "\<And>r sc d pt st a b c f g h i j.
             P (dump_crash e (s\<lparr>crashed := True\<rparr>) excpt r sc d pt st a b c f g h i j)"
  shows "P (on_exception e excpt s)"
  unfolding on_exception_def Let_def
  by (simp add: assms)

lemma on_exception_outcome:
  "files (on_exception e excpt s) =
     (if replay s \<and> crash_file_opens e \<and> crash_file_writes e
      then Crash_file (crash_json (on_exception e excpt s)) #
           (if dump_file_opens e \<and> minidump_writes e then [Full_memory_dump] else [])
      else []) \<and>
   ended (on_exception e excpt s) =
     (if replay s \<and> (\<not> crash_file_opens e \<or> \<not> crash_file_writes e)
      then Abort else Exit_process 1)"
  by (rule on_exception_cases) (simp add: dump_crash_fields)

lemma is_tainted_crashed: "is_tainted e (s\<lparr>crashed := b\<rparr>) = is_tainted e s"
  by (rule ext) (simp add: is_tainted_def split: opnd_t.splits)

text \<open>
  Claim C1. The pair of reason and score in the report that \<^verbatim>\<open>on_exception\<close> builds
  is the pair of the first row of the ordered table of section 4.7 whose condition holds of
  the step-3 facts; the table always has such a row, so the pair is unique.
\<close>

theorem scoring_is_first_matching_row:
  "first_matching_row (step3 e excpt s) =
     Some (j_reason (crash_json (on_exception e excpt s)),
           j_score (crash_json (on_exception e excpt s)))"
  unfolding on_exception_def Let_def first_matching_row_def scoring_matrix_def step3_def
  by (simp add: dump_crash_fields dump_json_def is_tainted_crashed)

text \<open>
  Claim C2, as amended. The handler always ends the process and never hands control back.
  In replay mode, when the crash file and the dump file open and both writes succeed, it
  writes exactly one JSON crash record and one full-memory dump and exits with code 1.
  Outside replay mode it writes neither and exits with code 1.
\<close>

theorem triage_artifacts:
  "(replay s \<and> crash_file_opens e \<and> crash_file_writes e \<and> dump_file_opens e \<and>
    minidump_writes e \<longrightarrow>
      files (on_exception e excpt s) =
        [Crash_file (crash_json (on_exception e excpt s)), Full_memory_dump] \<and>
      ended (on_exception e excpt s) = Exit_process 1) \<and>
   (\<not> replay s \<longrightarrow>
      files (on_exception e excpt s) = [] \<and>
      ended (on_exception e excpt s) = Exit_process 1) \<and>
   (ended (on_exception e excpt s) = Exit_process 1 \<or> ended (on_exception e excpt s) = Abort)"
  using on_exception_outcome [of e excpt s] by simp

text \<open>Witness for C2: a replay run whose files open and write, and a run without replay.\<close>

theorem triage_artifacts_witness:
  "files (on_exception ex_env ex_excpt ex_state) =
     [Crash_file (crash_json (on_exception ex_env ex_excpt ex_state)), Full_memory_dump] \<and>
   ended (on_exception ex_env ex_excpt ex_state) = Exit_process 1 \<and>
   files (on_exception ex_env ex_excpt ex_state_no_replay) = [] \<and>
   ended (on_exception ex_env ex_excpt ex_state_no_replay) = Exit_process 1"
  using triage_artifacts [of ex_state ex_env ex_excpt]
    triage_artifacts [of ex_state_no_replay ex_env ex_excpt]
  by (simp add: ex_state_no_replay_def ex_state_def ex_env_def)

text \<open>
  Counterexample to C2 as stated: in a run that was not started in replay mode the handler
  writes no JSON crash record and no memory dump.
\<close>

theorem no_artifacts_without_replay:
  "\<not> replay ex_state_no_replay \<and>
   files (on_exception ex_env ex_excpt ex_state_no_replay) = []"
  using on_exception_outcome [of ex_env ex_excpt ex_state_no_replay]
  by (simp add: ex_state_no_replay_def ex_state_def)

lemma report_of_triage:
  "(\<not> t_not_readable (step3 e excpt s) \<and>
    t_exception (step3 e excpt s) \<noteq> EXCEPTION_ILLEGAL_INSTRUCTION \<and>
    t_exception (step3 e excpt s) \<noteq> EXCEPTION_INT_DIVIDE_BY_ZERO \<and>
    t_exception (step3 e excpt s) \<noteq> EXCEPTION_BREAKPOINT \<and>
    \<not> t_is_direct (step3 e excpt s) \<and> \<not> t_is_indirect (step3 e excpt s) \<and>
    \<not> t_is_call (step3 e excpt s) \<and> \<not> t_is_ret (step3 e excpt s) \<longrightarrow>
      reflects_step3 (crash_json (on_exception e excpt s)) (step3 e excpt s)) \<and>
   (\<not> t_not_readable (step3 e excpt s) \<and>
    t_exception (step3 e excpt s) \<noteq> EXCEPTION_ILLEGAL_INSTRUCTION \<longrightarrow>
      reflects_decoding (crash_json (on_exception e excpt s)) (step3 e excpt s)) \<and>
   (t_not_readable (step3 e excpt s) \<longrightarrow>
      j_instruction (crash_json (on_exception e excpt s)) = [] \<and>
      all_flags_false (crash_json (on_exception e excpt s))) \<and>
   (\<not> t_not_readable (step3 e excpt s) \<and>
    t_exception (step3 e excpt s) = EXCEPTION_ILLEGAL_INSTRUCTION \<longrightarrow>
      j_instruction (crash_json (on_exception e excpt s)) = t_instruction (step3 e excpt s) \<and>
      all_flags_false (crash_json (on_exception e excpt s)))"
  unfolding on_exception_def Let_def step3_def reflects_step3_def reflects_decoding_def
    all_flags_false_def
  by (simp add: dump_crash_fields dump_json_def is_tainted_crashed)

text \<open>
  Witness for C1: an access violation at \<^verbatim>\<open>mov rax, qword ptr [rbx]\<close> with
  \<^verbatim>\<open>rbx\<close> tainted is a tainted read with score 75.
\<close>

theorem scoring_is_first_matching_row_witness:
  "first_matching_row (step3 ex_env ex_excpt ex_state) = Some (''tainted read'', 75) \<and>
   j_reason (crash_json (on_exception ex_env ex_excpt ex_state)) = ''tainted read'' \<and>
   j_score (crash_json (on_exception ex_env ex_excpt ex_state)) = 75"
proof -
  have "first_matching_row (step3 ex_env ex_excpt ex_state) = Some (''tainted read'', 75)"
    by (simp add: first_matching_row_def scoring_matrix_def step3_def ex_env_def ex_excpt_def
        ex_state_def mov_load_def nop_instr_def is_tainted_def mem_range_def)
  then show ?thesis
    using scoring_is_first_matching_row [of ex_env ex_excpt ex_state] by simp
qed

text \<open>
  Claim C3, as amended. In an emitted crash report: when a write, read or unknown row
  fires, the instruction, the six classification flags and both survey flags are those of
  step 3; when any row after the illegal-instruction rows fires, the instruction and the
  six classification flags are those of the decoded instruction; when an oob-execution row
  fires, the instruction is empty and all eight flags are false; when an
  illegal-instruction row fires, the instruction is the disassembly and all eight flags
  are false.
\<close>

theorem emitted_report_fields:
  assumes "Crash_file j \<in> set (files (on_exception e excpt s))"
  shows
  "(\<not> t_not_readable (step3 e excpt s) \<and>
    t_exception (step3 e excpt s) \<noteq> EXCEPTION_ILLEGAL_INSTRUCTION \<and>
    t_exception (step3 e excpt s) \<noteq> EXCEPTION_INT_DIVIDE_BY_ZERO \<and>
    t_exception (step3 e excpt s) \<noteq> EXCEPTION_BREAKPOINT \<and>
    \<not> t_is_direct (step3 e excpt s) \<and> \<not> t_is_indirect (step3 e excpt s) \<and>
    \<not> t_is_call (step3 e excpt s) \<and> \<not> t_is_ret (step3 e excpt s) \<longrightarrow>
      reflects_step3 j (step3 e excpt s)) \<and>
   (\<not> t_not_readable (step3 e excpt s) \<and>
    t_exception (step3 e excpt s) \<noteq> EXCEPTION_ILLEGAL_INSTRUCTION \<longrightarrow>
      reflects_decoding j (step3 e excpt s)) \<and>
   (t_not_readable (step3 e excpt s) \<longrightarrow> j_instruction j = [] \<and> all_flags_false j) \<and>
   (\<not> t_not_readable (step3 e excpt s) \<and>
    t_exception (step3 e excpt s) = EXCEPTION_ILLEGAL_INSTRUCTION \<longrightarrow>
      j_instruction j = t_instruction (step3 e excpt s) \<and> all_flags_false j)"
proof -
  have "j = crash_json (on_exception e excpt s)"
    using assms on_exception_outcome [of e excpt s] by (auto split: if_splits)
  then show ?thesis
    using report_of_triage [of e excpt s] by simp
qed

text \<open>
  Witness for C3: the report of the tainted read is emitted and carries the step-3 values,
  the tainted source among them.
\<close>

theorem emitted_report_fields_witness:
  "Crash_file (crash_json (on_exception ex_env ex_excpt ex_state))
     \<in> set (files (on_exception ex_env ex_excpt ex_state)) \<and>
   reflects_step3 (crash_json (on_exception ex_env ex_excpt ex_state))
     (step3 ex_env ex_excpt ex_state) \<and>
   t_tainted_src (step3 ex_env ex_excpt ex_state) \<and>
   j_tainted_src (crash_json (on_exception ex_env ex_excpt ex_state))"
proof -
  have emitted: "Crash_file (crash_json (on_exception ex_env ex_excpt ex_state))
     \<in> set (files (on_exception ex_env ex_excpt ex_state))"
    using on_exception_outcome [of ex_env ex_excpt ex_state]
    by (simp add: ex_state_def ex_env_def)
  have facts: "step3 ex_env ex_excpt ex_state =
     \<lparr>t_not_readable = False, t_exception = EXCEPTION_OTHER 0xC0000005,
      t_instruction = ''mov rax, qword ptr [rbx]'', t_pc_tainted = False,
      t_stack_tainted = False, t_is_ret = False, t_is_direct = False,
      t_is_indirect = False, t_is_call = False, t_mem_write = False, t_mem_read = True,
      t_tainted_src = True, t_tainted_dst = False\<rparr>"
    by (simp add: step3_def ex_env_def ex_excpt_def ex_state_def mov_load_def nop_instr_def
        is_tainted_def mem_range_def)
  have "reflects_step3 (crash_json (on_exception ex_env ex_excpt ex_state))
     (step3 ex_env ex_excpt ex_state)"
    using emitted_report_fields [OF emitted] by (simp add: facts)
  then show ?thesis
    using emitted by (simp add: facts reflects_step3_def)
qed

text \<open>
  Counterexample to C3 as stated: for an illegal-instruction exception at an instruction
  that reads memory through a tainted register, the emitted report says that it neither
  reads memory nor has a tainted source.
\<close>

theorem illegal_instruction_report_drops_flags:
  "files (on_exception ex_env ex_excpt_illegal ex_state) =
     [Crash_file (crash_json (on_exception ex_env ex_excpt_illegal ex_state)),
      Full_memory_dump] \<and>
   t_mem_read (step3 ex_env ex_excpt_illegal ex_state) \<and>
   \<not> j_mem_read (crash_json (on_exception ex_env ex_excpt_illegal ex_state)) \<and>
   t_tainted_src (step3 ex_env ex_excpt_illegal ex_state) \<and>
   \<not> j_tainted_src (crash_json (on_exception ex_env ex_excpt_illegal ex_state)) \<and>
   \<not> reflects_step3 (crash_json (on_exception ex_env ex_excpt_illegal ex_state))
       (step3 ex_env ex_excpt_illegal ex_state)"
proof -
  have files: "files (on_exception ex_env ex_excpt_illegal ex_state) =
     [Crash_file (crash_json (on_exception ex_env ex_excpt_illegal ex_state)),
      Full_memory_dump]"
    using on_exception_outcome [of ex_env ex_excpt_illegal ex_state]
    by (simp add: ex_state_def ex_env_def)
  have facts: "t_mem_read (step3 ex_env ex_excpt_illegal ex_state)"
    "t_tainted_src (step3 ex_env ex_excpt_illegal ex_state)"
    by (simp_all add: step3_def ex_env_def ex_excpt_illegal_def ex_excpt_def ex_state_def
        mov_load_def nop_instr_def is_tainted_def mem_range_def)
  have report: "\<not> j_mem_read (crash_json (on_exception ex_env ex_excpt_illegal ex_state))"
    "\<not> j_tainted_src (crash_json (on_exception ex_env ex_excpt_illegal ex_state))"
    by (simp_all add: on_exception_def Let_def dump_crash_fields dump_json_def ex_env_def
        ex_excpt_illegal_def ex_excpt_def)
  show ?thesis
    using files facts report by (simp add: reflects_step3_def)
qed

text \<open>
  Claim C4 on the code: when the crash file cannot be opened or written in replay mode, the
  process aborts and no report is written.
\<close>

lemma crash_file_failure_aborts:
  assumes "replay s" and "\<not> crash_file_opens e \<or> \<not> crash_file_writes e"
  shows "ended (on_exception e excpt s) = Abort \<and> files (on_exception e excpt s) = []"
  using assms on_exception_outcome [of e excpt s] by auto

text \<open>
  Claim C4 at its failing input: in replay mode, with a crash file that opens and is
  written and a dump file that cannot be opened, the handler does not abort. It has
  written the JSON report alone, and the process exits with code 1 as after a complete
  triage.
\<close>

theorem dump_file_failure_does_not_abort:
  "replay ex_state \<and>
   crash_file_opens ex_env_no_dump_file \<and>
   crash_file_writes ex_env_no_dump_file \<and>
   \<not> dump_file_opens ex_env_no_dump_file \<and>
   ended (on_exception ex_env_no_dump_file ex_excpt ex_state) = Exit_process 1 \<and>
   files (on_exception ex_env_no_dump_file ex_excpt ex_state) =
     [Crash_file (crash_json (on_exception ex_env_no_dump_file ex_excpt ex_state))]"
  using on_exception_outcome [of ex_env_no_dump_file ex_excpt ex_state]
  by (simp add: ex_env_no_dump_file_def ex_env_def ex_state_def)

subsection \<open>The tainted extents of the report\<close>











end
